theory Spec2Isabelle
  imports Main "HOL-Library.Word"
begin

section \<open>JavaScript values\<close>

text \<open>
  Strings are lists of code units; the model covers the code units U+0000 to U+00FF
  (the range of \<^typ>\<open>char\<close>), so \<open>length\<close> is the JavaScript \<open>.length\<close>.
  A parsed JSON document is a \<open>json\<close> value; the numbers covered are those with an
  integer value. A property that is missing reads as \<open>undefined\<close>, modelled as
  \<open>None\<close>.
\<close>

type_synonym byte = "8 word"

datatype js_error = SyntaxError | TypeError | Error string

datatype json =
    JNull
  | JBool bool
  | JNum int
  | JStr string
  | JArr "json list"
  | JObj "(string \<times> json) list"

text \<open>The value of \<open>v.k\<close> for a value \<open>v\<close> that is not null: objects look the key up
  (the last binding of a repeated key wins, as in \<open>JSON.parse\<close>), every other value
  has none of the property names used here.\<close>

fun get_prop :: "json \<Rightarrow> string \<Rightarrow> json option" where
  "get_prop (JObj kvs) k = map_of (rev kvs) k"
| "get_prop _ k = None"

text \<open>Truthiness of a value that may be \<open>undefined\<close>.\<close>

fun truthy :: "json option \<Rightarrow> bool" where
  "truthy None = False"
| "truthy (Some JNull) = False"
| "truthy (Some (JBool b)) = b"
| "truthy (Some (JNum n)) = (n \<noteq> 0)"
| "truthy (Some (JStr s)) = (s \<noteq> [])"
| "truthy (Some (JArr xs)) = True"
| "truthy (Some (JObj kvs)) = True"

section \<open>Text encoding and hexadecimal conversion\<close>

text \<open>\<open>new TextEncoder().encode(s)\<close>: UTF-8, one byte below U+0080 and two bytes from
  U+0080 to U+00FF.\<close>

definition encode_char :: "char \<Rightarrow> byte list" where
  "encode_char c =
     (let n = (of_char c :: nat) in
      if n < 128 then [of_nat n]
      else [of_nat (192 + n div 64), of_nat (128 + n mod 64)])"

definition TextEncoder_encode :: "string \<Rightarrow> byte list" where
  "TextEncoder_encode s = concat (map encode_char s)"

definition hexdigit :: "nat \<Rightarrow> char" where
  "hexdigit n = ''0123456789abcdef'' ! n"

text \<open>\<open>b.toString(16)\<close> for a byte, and \<open>padStart(2, '0')\<close>.\<close>

definition toString16 :: "byte \<Rightarrow> string" where
  "toString16 b =
     (if unat b < 16 then [hexdigit (unat b)]
      else [hexdigit (unat b div 16), hexdigit (unat b mod 16)])"

definition padStart2 :: "string \<Rightarrow> string" where
  "padStart2 s = replicate (2 - length s) (CHR ''0'') @ s"

definition bytesToHex :: "byte list \<Rightarrow> string" where
  "bytesToHex bytes = concat (map (\<lambda>b. padStart2 (toString16 b)) bytes)"


definition is_ws :: "char \<Rightarrow> bool" where
  "is_ws c = ((of_char c :: nat) \<in> {9, 10, 11, 12, 13, 32, 160})"

definition trim :: "string \<Rightarrow> string" where
  "trim s = rev (dropWhile is_ws (rev (dropWhile is_ws s)))"

definition hexval :: "char \<Rightarrow> nat option" where
  "hexval c =
     (let n = (of_char c :: nat) in
      if 48 \<le> n \<and> n \<le> 57 then Some (n - 48)
      else if 97 \<le> n \<and> n \<le> 102 then Some (n - 87)
      else if 65 \<le> n \<and> n \<le> 70 then Some (n - 55)
      else None)"

text \<open>\<open>parseInt(s, 16)\<close>: leading white space, a sign and a \<open>0x\<close> prefix are skipped,
  then the longest run of hexadecimal digits is read; no digit gives \<open>NaN\<close>
  (\<open>None\<close>).\<close>

definition strip_sign :: "string \<Rightarrow> bool \<times> string" where
  "strip_sign s =
     (case s of
        c # r \<Rightarrow> if c = CHR ''-'' then (True, r) else if c = CHR ''+'' then (False, r) else (False, s)
      | [] \<Rightarrow> (False, s))"

definition strip_0x :: "string \<Rightarrow> string" where
  "strip_0x s =
     (case s of
        a # b # r \<Rightarrow> if a = CHR ''0'' \<and> (b = CHR ''x'' \<or> b = CHR ''X'') then r else s
      | _ \<Rightarrow> s)"

definition digits_value :: "string \<Rightarrow> nat" where
  "digits_value ds = foldl (\<lambda>acc c. 16 * acc + (case hexval c of Some v \<Rightarrow> v | None \<Rightarrow> 0)) 0 ds"

definition parseInt16 :: "string \<Rightarrow> int option" where
  "parseInt16 s =
     (let (neg, r) = strip_sign (dropWhile is_ws s);
          ds = takeWhile (\<lambda>c. hexval c \<noteq> None) (strip_0x r)
      in if ds = [] then None
         else Some (if neg then - int (digits_value ds) else int (digits_value ds)))"

text \<open>Storing a number into a \<open>Uint8Array\<close> cell: \<open>NaN\<close> is stored as 0, any other
  integer modulo 256.\<close>

definition to_uint8 :: "int option \<Rightarrow> byte" where
  "to_uint8 v = (case v of None \<Rightarrow> 0 | Some n \<Rightarrow> word_of_int n)"

fun substrings2 :: "string \<Rightarrow> string list" where
  "substrings2 (a # b # r) = [a, b] # substrings2 r"
| "substrings2 [a] = [[a]]"
| "substrings2 [] = []"

definition replace_0x_prefix :: "string \<Rightarrow> string" where
  "replace_0x_prefix s =
     (case s of
        a # b # r \<Rightarrow> if a = CHR ''0'' \<and> b = CHR ''x'' then r else s
      | _ \<Rightarrow> s)"

definition hexToBytes :: "string \<Rightarrow> js_error + byte list" where
  "hexToBytes hex0 =
     (let hex = trim (replace_0x_prefix hex0) in
      if length hex mod 2 \<noteq> 0 then Inl (Error ''Hex string must have an even number of characters'')
      else Inr (map (\<lambda>p. to_uint8 (parseInt16 p)) (substrings2 hex)))"

section \<open>Ed25519 signing and verification\<close>

text \<open>
  The tweetnacl library is imported, not part of the repository: its three entry points
  are a parameter. \<open>keyPair_fromSeed\<close> gives the pair (publicKey, secretKey), or
  \<open>None\<close> where the library throws.
\<close>

record nacl =
  keyPair_fromSeed :: "byte list \<Rightarrow> (byte list \<times> byte list) option"
  detached :: "byte list \<Rightarrow> byte list \<Rightarrow> byte list"
  detached_verify :: "byte list \<Rightarrow> byte list \<Rightarrow> byte list \<Rightarrow> bool"

text \<open>What the library documents: a seed is accepted exactly when it has 32 bytes, a
  detached signature has 64 bytes, and a signature made with the secret key of a pair
  verifies under its public key.\<close>

definition nacl_contract :: "nacl \<Rightarrow> bool" where
  "nacl_contract lib \<longleftrightarrow>
     (\<forall>seed. (keyPair_fromSeed lib seed \<noteq> None) = (length seed = 32)) \<and>
     (\<forall>seed pk sk m. keyPair_fromSeed lib seed = Some (pk, sk) \<longrightarrow>
        length (detached lib m sk) = 64 \<and> detached_verify lib m (detached lib m sk) pk)"

text \<open>The loop \<open>while (secret.length < 32) secret = secret.repeat(2).slice(0, 32)\<close>.
  It does not return for the empty string.\<close>

partial_function (option) stretch_secret :: "string \<Rightarrow> string option" where
  "stretch_secret secret =
     (if length secret < 32 then stretch_secret (take 32 (secret @ secret)) else Some secret)"

declare stretch_secret.simps [code]

text \<open>\<open>Ed25519.sign\<close>: \<open>None\<close> when the call does not return, \<open>Inl\<close> the error it
  rethrows, \<open>Inr\<close> the signature in hexadecimal.\<close>

definition Ed25519_sign :: "nacl \<Rightarrow> string \<Rightarrow> string \<Rightarrow> (js_error + string) option" where
  "Ed25519_sign lib secret0 message =
     (case stretch_secret secret0 of
        None \<Rightarrow> None
      | Some secret \<Rightarrow>
          Some (let seedBytes = TextEncoder_encode secret in
                case keyPair_fromSeed lib seedBytes of
                  None \<Rightarrow> Inl (Error ''bad seed size'')
                | Some (publicKey, secretKey) \<Rightarrow>
                    (let messageBytes = TextEncoder_encode message;
                         signatureBytes = detached lib messageBytes secretKey
                     in Inr (bytesToHex signatureBytes))))"

text \<open>\<open>Ed25519.verify\<close>: every error is caught and answered \<open>false\<close>.\<close>

definition Ed25519_verify :: "nacl \<Rightarrow> string \<Rightarrow> string \<Rightarrow> string \<Rightarrow> bool option" where
  "Ed25519_verify lib secret0 signature message =
     (case stretch_secret secret0 of
        None \<Rightarrow> None
      | Some secret \<Rightarrow>
          Some (let seedBytes = TextEncoder_encode secret in
                case keyPair_fromSeed lib seedBytes of
                  None \<Rightarrow> False
                | Some (publicKey, secretKey) \<Rightarrow>
                    (let messageBytes = TextEncoder_encode message in
                     case hexToBytes signature of
                       Inl e \<Rightarrow> False
                     | Inr signatureBytes \<Rightarrow>
                         if length signatureBytes \<noteq> 64 then False
                         else detached_verify lib messageBytes signatureBytes publicKey)))"

text \<open>Signing and then verifying under the same secret: the error of \<open>sign\<close> if it
  throws, the verdict of \<open>verify\<close> otherwise.\<close>

definition sign_then_verify :: "nacl \<Rightarrow> string \<Rightarrow> string \<Rightarrow> (js_error + bool) option" where
  "sign_then_verify lib secret message =
     (case Ed25519_sign lib secret message of
        None \<Rightarrow> None
      | Some (Inl e) \<Rightarrow> Some (Inl e)
      | Some (Inr signature) \<Rightarrow> map_option Inr (Ed25519_verify lib secret signature message))"

text \<open>A small implementation of the library interface, used to run the definitions on
  concrete inputs: the public key is the seed, the secret key is the seed twice, and a
  signature is the first 64 bytes of the message followed by the secret key.\<close>

definition demo_nacl :: nacl where
  "demo_nacl =
     \<lparr> keyPair_fromSeed = (\<lambda>seed. if length seed = 32 then Some (seed, seed @ seed) else None),
       detached = (\<lambda>m sk. take 64 (m @ sk)),
       detached_verify = (\<lambda>m sg pk. sg = take 64 (m @ pk @ pk)) \<rparr>"

section \<open>The QQ Bot adapter\<close>

record QQBotConfig =
  appId :: string
  secret :: string
  verifySignature :: bool

text \<open>A request: the body text and the headers under the names the adapter reads.
  The adapter is handed a request whose body has not been read.\<close>

record request =
  req_body :: string
  req_headers :: "(string \<times> string) list"

datatype content = Text string | Json json

record response =
  status :: nat
  resp_body :: content

text \<open>\<open>request.headers.get(name) || ''\<close>.\<close>

definition header_or_empty :: "request \<Rightarrow> string \<Rightarrow> string" where
  "header_or_empty request name =
     (case map_of (req_headers request) name of Some v \<Rightarrow> v | None \<Rightarrow> [])"

text \<open>
  \<open>String(v)\<close>, \<open>v.toString()\<close> and \<open>`${v}`\<close> of a parsed value; \<open>None\<close> is the
  \<open>TypeError\<close> they throw. A number inside the safe range (magnitude below \<open>2^53\<close>)
  is printed as its decimal numeral (the decimal digits are the first ten of
  \<open>hexdigit\<close>); outside that range the text is the one the runtime prints for the
  double, the parameter \<open>fmt\<close>. An array joins the texts of its elements, \<open>null\<close>
  counting as the empty text, and throws when one of them throws. An object with an own
  property \<open>toString\<close> throws, since no parsed value is callable; every other object
  prints as \<open>[object Object]\<close>.
\<close>

fun dec_nat :: "nat \<Rightarrow> string" where
  "dec_nat n = (if n < 10 then [hexdigit n] else dec_nat (n div 10) @ [hexdigit (n mod 10)])"

definition dec_int :: "int \<Rightarrow> string" where
  "dec_int i = (if i < 0 then CHR ''-'' # dec_nat (nat (- i)) else dec_nat (nat i))"

fun join_comma :: "string list \<Rightarrow> string" where
  "join_comma [] = []"
| "join_comma [x] = x"
| "join_comma (x # y # r) = x @ '','' @ join_comma (y # r)"

definition Number_toString :: "(int \<Rightarrow> string) \<Rightarrow> int \<Rightarrow> string" where
  "Number_toString fmt n = (if \<bar>n\<bar> < 2 ^ 53 then dec_int n else fmt n)"

fun js_string :: "(int \<Rightarrow> string) \<Rightarrow> json \<Rightarrow> string option"
  and js_strings :: "(int \<Rightarrow> string) \<Rightarrow> json list \<Rightarrow> string list option" where
  "js_string fmt JNull = Some ''null''"
| "js_string fmt (JBool b) = Some (if b then ''true'' else ''false'')"
| "js_string fmt (JNum n) = Some (Number_toString fmt n)"
| "js_string fmt (JStr s) = Some s"
| "js_string fmt (JArr xs) = map_option join_comma (js_strings fmt xs)"
| "js_string fmt (JObj kvs) =
     (if map_of (rev kvs) ''toString'' = None then Some ''[object Object]'' else None)"
| "js_strings fmt [] = Some []"
| "js_strings fmt (x # xs) =
     (case (if x = JNull then Some [] else js_string fmt x) of
        None \<Rightarrow> None
      | Some s \<Rightarrow> map_option ((#) s) (js_strings fmt xs))"

text \<open>The same for a value that may be \<open>undefined\<close>.\<close>

definition js_string_opt :: "(int \<Rightarrow> string) \<Rightarrow> json option \<Rightarrow> string option" where
  "js_string_opt fmt v = (case v of None \<Rightarrow> Some ''undefined'' | Some x \<Rightarrow> js_string fmt x)"

text \<open>\<open>a || b\<close> on values.\<close>

definition or_else :: "json option \<Rightarrow> json \<Rightarrow> json" where
  "or_else a b = (case a of Some v \<Rightarrow> if truthy a then v else b | None \<Rightarrow> b)"

text \<open>The adapter holds an \<open>Ed25519\<close> instance exactly when \<open>config.secret\<close> is truthy.\<close>

definition has_ed25519 :: "QQBotConfig \<Rightarrow> bool" where
  "has_ed25519 config = (secret config \<noteq> [])"

definition QQBot_verifySignature ::
  "nacl \<Rightarrow> QQBotConfig \<Rightarrow> string \<Rightarrow> string \<Rightarrow> string \<Rightarrow> bool option" where
  "QQBot_verifySignature lib config body timestamp signature =
     (if \<not> verifySignature config then Some True
      else if \<not> has_ed25519 config then Some False
      else Ed25519_verify lib (secret config) signature (timestamp @ body))"

definition createAckResponse :: response where
  "createAckResponse = \<lparr> status = 200, resp_body = Json (JObj [(''op'', JNum 12)]) \<rparr>"

definition handleDispatch :: "json \<Rightarrow> response" where
  "handleDispatch payload = createAckResponse"

text \<open>\<open>handleVerification\<close>: \<open>Inl\<close> is the exception that leaves the method (the
  destructuring of \<open>payload.d\<close> stands before its \<open>try\<close>), \<open>None\<close> a call that does not
  return. Inside the \<open>try\<close>, a \<open>String(...)\<close> or a \<open>sign\<close> that throws is answered
  with status 500.\<close>

definition handleVerification ::
  "(int \<Rightarrow> string) \<Rightarrow> nacl \<Rightarrow> QQBotConfig \<Rightarrow> json \<Rightarrow> (js_error + response) option" where
  "handleVerification fmt lib config payload =
     (case get_prop payload ''d'' of
        None \<Rightarrow> Some (Inl TypeError)
      | Some JNull \<Rightarrow> Some (Inl TypeError)
      | Some d \<Rightarrow>
          (let plain_token = get_prop d ''plain_token'';
               event_ts = get_prop d ''event_ts''
           in if \<not> truthy plain_token \<or> \<not> truthy event_ts
              then Some (Inr \<lparr> status = 400, resp_body = Text ''Bad request'' \<rparr>)
              else if \<not> has_ed25519 config
              then Some (Inr \<lparr> status = 500, resp_body = Text ''Server configuration error'' \<rparr>)
              else (case (plain_token, event_ts) of
                      (Some pt, Some ets) \<Rightarrow>
                        (case js_string fmt pt of
                           None \<Rightarrow>
                             Some (Inr \<lparr> status = 500, resp_body = Text ''Internal server error'' \<rparr>)
                         | Some plainTokenStr \<Rightarrow>
                             (case js_string fmt ets of
                                None \<Rightarrow>
                                  Some (Inr \<lparr> status = 500,
                                              resp_body = Text ''Internal server error'' \<rparr>)
                              | Some eventTsStr \<Rightarrow>
                                  (let message = eventTsStr @ plainTokenStr
                                   in case Ed25519_sign lib (secret config) message of
                                        None \<Rightarrow> None
                                      | Some (Inl e) \<Rightarrow>
                                          Some (Inr \<lparr> status = 500,
                                                      resp_body = Text ''Internal server error'' \<rparr>)
                                      | Some (Inr signature) \<Rightarrow>
                                          Some (Inr \<lparr> status = 200,
                                                      resp_body =
                                                        Json (JObj [(''plain_token'', pt),
                                                                    (''signature'', JStr signature)]) \<rparr>))))
                    | _ \<Rightarrow> Some (Inr \<lparr> status = 400, resp_body = Text ''Bad request'' \<rparr>))))"

text \<open>\<open>handleWebhook\<close>. \<open>JSON.parse\<close> is the parameter \<open>parse\<close> (\<open>None\<close>: it throws a
  \<open>SyntaxError\<close>). Every exception is caught and answered with status 500.\<close>

definition internal_error :: response where
  "internal_error = \<lparr> status = 500, resp_body = Text ''Internal server error'' \<rparr>"

definition handleWebhook ::
  "(string \<Rightarrow> json option) \<Rightarrow> (int \<Rightarrow> string) \<Rightarrow> nacl \<Rightarrow> QQBotConfig \<Rightarrow> request
     \<Rightarrow> response option" where
  "handleWebhook parse fmt lib config request =
     (let body = req_body request;
          timestamp = header_or_empty request ''X-Signature-Timestamp'';
          signature = header_or_empty request ''X-Signature-Ed25519''
      in case parse body of
           None \<Rightarrow> Some internal_error
         | Some JNull \<Rightarrow> Some internal_error
         | Some payload \<Rightarrow>
             if get_prop payload ''op'' = Some (JNum 13)
             then (case handleVerification fmt lib config payload of
                     None \<Rightarrow> None
                   | Some (Inl e) \<Rightarrow> Some internal_error
                   | Some (Inr r) \<Rightarrow> Some r)
             else
               (case (if verifySignature config \<and> timestamp \<noteq> [] \<and> signature \<noteq> []
                      then QQBot_verifySignature lib config body timestamp signature
                      else Some True) of
                  None \<Rightarrow> None
                | Some isValid \<Rightarrow>
                    if \<not> isValid then Some \<lparr> status = 401, resp_body = Text ''Invalid signature'' \<rparr>
                    else if get_prop payload ''op'' = Some (JNum 0)
                    then Some (handleDispatch payload)
                    else Some createAckResponse))"

text \<open>The gate of \<open>handleWebhook\<close> for a message that is not a handshake: the check
  runs when verification is enabled and both signature headers are non-empty, and the
  message is rejected when the check answers \<open>false\<close>.\<close>

definition signature_checked :: "QQBotConfig \<Rightarrow> request \<Rightarrow> bool" where
  "signature_checked config request \<longleftrightarrow>
     verifySignature config \<and>
     header_or_empty request ''X-Signature-Timestamp'' \<noteq> [] \<and>
     header_or_empty request ''X-Signature-Ed25519'' \<noteq> []"

definition signature_rejected :: "nacl \<Rightarrow> QQBotConfig \<Rightarrow> request \<Rightarrow> bool" where
  "signature_rejected lib config request \<longleftrightarrow>
     signature_checked config request \<and>
     QQBot_verifySignature lib config (req_body request)
       (header_or_empty request ''X-Signature-Timestamp'')
       (header_or_empty request ''X-Signature-Ed25519'') = Some False"

text \<open>\<open>transform\<close>; \<open>now\<close> is the value of \<open>Date.now()\<close>, taken to be the same at
  its two reads. Destructuring \<open>null\<close> throws a \<open>TypeError\<close>, and so do
  \<open>op.toString()\<close> for an \<open>op\<close> that is \<open>undefined\<close>, \<open>null\<close> or has no text,
  the template \<open>`op_${op}`\<close> (evaluated when \<open>t\<close> is falsy) for an \<open>op\<close> that has no
  text, and \<open>s?.toString()\<close> for an \<open>s\<close> that has no text.\<close>

record event =
  ev_id :: json
  ev_platform :: string
  ev_type :: json
  ev_timestamp :: int
  ev_headers :: "(string \<times> json) list"
  ev_payload :: "json option"
  ev_data :: "(string \<times> json option) list"

definition transform :: "(int \<Rightarrow> string) \<Rightarrow> int \<Rightarrow> json \<Rightarrow> js_error + event" where
  "transform fmt now payload =
     (case payload of
        JNull \<Rightarrow> Inl TypeError
      | _ \<Rightarrow>
        (let id = get_prop payload ''id'';
             op = get_prop payload ''op'';
             d = get_prop payload ''d'';
             s = get_prop payload ''s'';
             t = get_prop payload ''t''
         in case (if truthy t then Some (or_else t JNull)
                  else map_option (\<lambda>x. JStr (''op_'' @ x)) (js_string_opt fmt op)) of
              None \<Rightarrow> Inl TypeError
            | Some type_value \<Rightarrow>
                (case op of
                   None \<Rightarrow> Inl TypeError
                 | Some JNull \<Rightarrow> Inl TypeError
                 | Some opv \<Rightarrow>
                     (case js_string fmt opv of
                        None \<Rightarrow> Inl TypeError
                      | Some op_text \<Rightarrow>
                          (case (case s of
                                   None \<Rightarrow> Some []
                                 | Some JNull \<Rightarrow> Some []
                                 | Some sv \<Rightarrow> js_string fmt sv) of
                             None \<Rightarrow> Inl TypeError
                           | Some seq_text \<Rightarrow>
                               Inr \<lparr> ev_id = or_else id (JStr (''qqbot_'' @ Number_toString fmt now)),
                                     ev_platform = ''qqbot'',
                                     ev_type = type_value,
                                     ev_timestamp = now,
                                     ev_headers =
                                       [(''x-qqbot-op'', JStr op_text),
                                        (''x-qqbot-seq'', JStr seq_text),
                                        (''x-qqbot-event-type'', or_else t (JStr []))],
                                     ev_payload = d,
                                     ev_data =
                                       [(''opcode'', op),
                                        (''event_type'', Some (or_else t (JStr []))),
                                        (''sequence'', Some (or_else s (JNum 0))),
                                        (''event_id'', Some (or_else id (JStr []))),
                                        (''event_data'', d)] \<rparr>)))))"

section \<open>The webhook routes\<close>

definition SUPPORTED_PLATFORMS :: "string list" where
  "SUPPORTED_PLATFORMS =
     [''github'', ''gitlab'', ''qqbot'', ''telegram'',
      ''stripe'', ''jenkins'', ''jira'', ''sentry'', ''generic'']"

record proxy =
  proxy_id :: string
  proxy_platform :: string
  proxy_active :: bool
  access_token :: "string option"

text \<open>
  \<open>getProxyByRandomKey\<close>, \<open>createAdapter\<close> and the other helpers the routes import are
  parameters. The promise of the store either stays pending (or settles after the
  timeout), is rejected, or is fulfilled in time with \<open>null\<close>, \<open>undefined\<close> or a record.
\<close>

datatype store_reply =
    NeverResolves
  | Rejects js_error
  | ResolvesNull
  | ResolvesUndefined
  | ResolvesRecord proxy

datatype lookup = LNull | LUndefined | LRecord proxy

text \<open>\<open>await Promise.race([dbQueryPromise, timeoutPromise])\<close>, the timeout promise being
  fulfilled with \<open>null\<close>.\<close>

fun race_timeout :: "store_reply \<Rightarrow> js_error + lookup" where
  "race_timeout NeverResolves = Inr LNull"
| "race_timeout (Rejects e) = Inl e"
| "race_timeout ResolvesNull = Inr LNull"
| "race_timeout ResolvesUndefined = Inr LUndefined"
| "race_timeout (ResolvesRecord p) = Inr (LRecord p)"


record adapter =
  adapter_handleWebhook :: "request \<Rightarrow> (js_error + response) option"
  adapter_transform :: "json \<Rightarrow> js_error + event"

definition QQBotAdapter ::
  "(string \<Rightarrow> json option) \<Rightarrow> (int \<Rightarrow> string) \<Rightarrow> nacl \<Rightarrow> int \<Rightarrow> QQBotConfig \<Rightarrow> adapter" where
  "QQBotAdapter parse fmt lib now config =
     \<lparr> adapter_handleWebhook =
         (\<lambda>request. map_option Inr (handleWebhook parse fmt lib config request)),
       adapter_transform = transform fmt now \<rparr>"

record env =
  getProxyByRandomKey :: "string \<Rightarrow> store_reply"
  createAdapter :: "proxy \<Rightarrow> adapter option"
  JSON_parse :: "string \<Rightarrow> json option"
  number_format :: "int \<Rightarrow> string"

text \<open>
  A \<open>Request\<close> object of the route is the request with the mark that its body has been
  read. A body is read once: reading it again, and cloning a request whose body has been
  read, throw a \<open>TypeError\<close>.
\<close>

type_synonym Request = "request \<times> bool"

definition Request_clone :: "Request \<Rightarrow> js_error + Request" where
  "Request_clone r = (if snd r then Inl TypeError else Inr (fst r, False))"

definition Request_text :: "Request \<Rightarrow> js_error + string \<times> Request" where
  "Request_text r = (if snd r then Inl TypeError else Inr (req_body (fst r), (fst r, True)))"

text \<open>What \<open>perfMonitor.end\<close> is given: success, a named error, or the class that
  \<open>classifyError\<close> gives a caught exception.\<close>

datatype perf = PerfSuccess | PerfError string | PerfClassified js_error

record broadcast_task =
  task_adapter :: adapter
  task_request :: request
  task_proxyId :: string
  task_randomKey :: string

text \<open>The outcome of one POST: the response, the monitor's record, and the task handed
  to \<open>executionCtx.waitUntil\<close>, if any. The request of a task is a fresh clone, whose
  body has not been read.\<close>

record outcome =
  out_response :: response
  out_perf :: perf
  out_scheduled :: "broadcast_task option"

definition text_response :: "string \<Rightarrow> nat \<Rightarrow> response" where
  "text_response msg code = \<lparr> status = code, resp_body = Text msg \<rparr>"

definition reject :: "string \<Rightarrow> nat \<Rightarrow> string \<Rightarrow> outcome" where
  "reject msg code kind =
     \<lparr> out_response = text_response msg code, out_perf = PerfError kind, out_scheduled = None \<rparr>"

text \<open>The \<open>catch\<close> block of the POST handler.\<close>

definition catch_error :: "js_error \<Rightarrow> outcome" where
  "catch_error e =
     \<lparr> out_response =
         (case e of
            SyntaxError \<Rightarrow> text_response ''Invalid JSON payload'' 400
          | TypeError \<Rightarrow> text_response ''Invalid request format'' 400
          | Error m \<Rightarrow> text_response ''Internal server error'' 500),
       out_perf = PerfClassified e,
       out_scheduled = None \<rparr>"

text \<open>The branch of the POST handler for the platform \<open>qqbot\<close> after an answer with
  status 200: the copy of the request is read and parsed, the discriminator and the event
  type are written to the log through a template literal, and for the discriminator 0
  the copy, whose body has just been read, is cloned for the broadcast task.\<close>

definition qqbot_broadcast ::
  "env \<Rightarrow> (Request \<Rightarrow> broadcast_task) \<Rightarrow> (broadcast_task option \<Rightarrow> outcome option) \<Rightarrow> Request
     \<Rightarrow> outcome option" where
  "qqbot_broadcast env task done clonedRequest =
     (case Request_text clonedRequest of
        Inl e \<Rightarrow> Some (catch_error e)
      | Inr (bodyText, clonedRequest') \<Rightarrow>
          (case JSON_parse env bodyText of
             None \<Rightarrow> Some (catch_error SyntaxError)
           | Some JNull \<Rightarrow> Some (catch_error TypeError)
           | Some payload \<Rightarrow>
               (case js_string_opt (number_format env) (get_prop payload ''op'') of
                  None \<Rightarrow> Some (catch_error TypeError)
                | Some op_text \<Rightarrow>
                    (case js_string (number_format env) (or_else (get_prop payload ''t'') (JStr ''N/A'')) of
                       None \<Rightarrow> Some (catch_error TypeError)
                     | Some type_text \<Rightarrow>
                         if get_prop payload ''op'' = Some (JNum 0)
                         then (case Request_clone clonedRequest' of
                                 Inl e \<Rightarrow> Some (catch_error e)
                               | Inr r \<Rightarrow> done (Some (task r)))
                         else done None))))"

definition webhook_post :: "env \<Rightarrow> string \<Rightarrow> string \<Rightarrow> request \<Rightarrow> outcome option" where
  "webhook_post env platform randomKey req =
     (if platform \<notin> set SUPPORTED_PLATFORMS
      then Some (reject ''Invalid platform'' 400 ''InvalidPlatform'')
      else
        case race_timeout (getProxyByRandomKey env randomKey) of
          Inl e \<Rightarrow> Some (catch_error e)
        | Inr LNull \<Rightarrow> Some (reject ''Database timeout'' 500 ''DBTimeout'')
        | Inr LUndefined \<Rightarrow> Some (reject ''Proxy not found'' 404 ''ProxyNotFound'')
        | Inr (LRecord proxy) \<Rightarrow>
            if \<not> proxy_active proxy
            then Some (reject ''Proxy is inactive'' 403 ''ProxyInactive'')
            else if proxy_platform proxy \<noteq> platform
            then Some (reject ''Platform mismatch'' 400 ''PlatformMismatch'')
            else
              (case createAdapter env proxy of
                 None \<Rightarrow> Some (reject ''Failed to create adapter'' 500 ''AdapterCreationFailed'')
               | Some adapter \<Rightarrow>
                   (case Request_clone (req, False) of
                      Inl e \<Rightarrow> Some (catch_error e)
                    | Inr clonedRequest \<Rightarrow>
                        (case adapter_handleWebhook adapter req of
                           None \<Rightarrow> None
                         | Some (Inl e) \<Rightarrow> Some (catch_error e)
                         | Some (Inr response) \<Rightarrow>
                             (let task = (\<lambda>r. \<lparr> task_adapter = adapter, task_request = fst r,
                                                  task_proxyId = proxy_id proxy,
                                                  task_randomKey = randomKey \<rparr>);
                                  done = (\<lambda>sched. Some \<lparr> out_response = response,
                                                           out_perf = PerfSuccess,
                                                           out_scheduled = sched \<rparr>)
                              in if status response = 200
                                 then if platform = ''qqbot''
                                      then qqbot_broadcast env task done clonedRequest
                                      else done (Some (task clonedRequest))
                                 else done None)))))"


section \<open>The background broadcast\<close>

text \<open>
  The two side effects are parameters: \<open>updateProxyEventCount n\<close> is the outcome of the
  call made after \<open>n\<close> earlier calls (\<open>None\<close>: it succeeds), \<open>do_broadcast n\<close> the
  outcome of the fetch to the Durable Object made after \<open>n\<close> earlier fetches (an
  exception, or the status of its response). The state counts the calls made, keeps the
  events the Durable Object accepted and the errors written by the task's \<open>catch\<close>.
\<close>

record effects =
  updateProxyEventCount :: "nat \<Rightarrow> js_error option"
  do_broadcast :: "nat \<Rightarrow> js_error + nat"

record bstate =
  updates_made :: nat
  fetches_made :: nat
  delivered :: "event list"
  errors_logged :: "js_error list"

text \<open>
  Modelled from the spec: \<open>withRetry\<close> of \<open>utils/performance.js\<close> is not among the
  sources. The spec's retry helper runs the operation, asks the predicate after each
  failure whether to continue, makes a bounded number of attempts, and on exhaustion
  ends the task with the failure: the last error is the helper's own failure.
  \<open>maxRetries\<close> counts the attempts after the first.
\<close>

fun retry_from ::
  "('s \<Rightarrow> (js_error + unit) \<times> 's) \<Rightarrow> (js_error \<Rightarrow> nat \<Rightarrow> bool) \<Rightarrow> nat \<Rightarrow> nat \<Rightarrow> 's
     \<Rightarrow> (js_error + unit) \<times> 's" where
  "retry_from operation shouldContinue 0 attempt st = operation st"
| "retry_from operation shouldContinue (Suc left) attempt st =
     (case operation st of
        (Inr v, st') \<Rightarrow> (Inr v, st')
      | (Inl e, st') \<Rightarrow>
          if shouldContinue e attempt
          then retry_from operation shouldContinue left (Suc attempt) st'
          else (Inl e, st'))"

definition withRetry ::
  "('s \<Rightarrow> (js_error + unit) \<times> 's) \<Rightarrow> nat \<Rightarrow> (js_error \<Rightarrow> nat \<Rightarrow> bool) \<Rightarrow> 's
     \<Rightarrow> (js_error + unit) \<times> 's" where
  "withRetry operation maxRetries shouldContinue st =
     retry_from operation shouldContinue maxRetries 0 st"

text \<open>The two operations handed to \<open>withRetry\<close>.\<close>

definition update_operation :: "effects \<Rightarrow> bstate \<Rightarrow> (js_error + unit) \<times> bstate" where
  "update_operation fx st =
     (let st' = st\<lparr> updates_made := Suc (updates_made st) \<rparr>
      in case updateProxyEventCount fx (updates_made st) of
           Some e \<Rightarrow> (Inl e, st')
         | None \<Rightarrow> (Inr (), st'))"

definition deliver_operation :: "effects \<Rightarrow> event \<Rightarrow> bstate \<Rightarrow> (js_error + unit) \<times> bstate" where
  "deliver_operation fx ev st =
     (let st' = st\<lparr> fetches_made := Suc (fetches_made st) \<rparr>
      in case do_broadcast fx (fetches_made st) of
           Inl e \<Rightarrow> (Inl e, st')
         | Inr code \<Rightarrow>
             if 200 \<le> code \<and> code \<le> 299
             then (Inr (), st'\<lparr> delivered := delivered st' @ [ev] \<rparr>)
             else (Inl (Error ''DO broadcast failed''), st'))"

text \<open>The \<open>try\<close> block of \<open>broadcastEvent\<close>. Its last statement writes the event
  type to the log through a template literal.\<close>

definition broadcast_steps ::
  "effects \<Rightarrow> (string \<Rightarrow> json option) \<Rightarrow> (int \<Rightarrow> string) \<Rightarrow> broadcast_task \<Rightarrow> bstate
     \<Rightarrow> (js_error + unit) \<times> bstate" where
  "broadcast_steps fx parse fmt task st =
     (case parse (req_body (task_request task)) of
        None \<Rightarrow> (Inl SyntaxError, st)
      | Some payload \<Rightarrow>
          (case adapter_transform (task_adapter task) payload of
             Inl e \<Rightarrow> (Inl e, st)
           | Inr ev \<Rightarrow>
               (case withRetry (update_operation fx) 2 (\<lambda>error attempt. True) st of
                  (Inl e, st1) \<Rightarrow> (Inl e, st1)
                | (Inr u, st1) \<Rightarrow>
                    (case withRetry (deliver_operation fx ev) 2 (\<lambda>error attempt. True) st1 of
                       (Inl e, st2) \<Rightarrow> (Inl e, st2)
                     | (Inr u, st2) \<Rightarrow>
                         (case js_string fmt (ev_type ev) of
                            None \<Rightarrow> (Inl TypeError, st2)
                          | Some type_text \<Rightarrow> (Inr (), st2))))))"

text \<open>\<open>broadcastEvent\<close>: the \<open>catch\<close> writes the error down; the first component is
  how the returned promise settles (\<open>Inl\<close>: rejected).\<close>

definition broadcastEvent ::
  "effects \<Rightarrow> (string \<Rightarrow> json option) \<Rightarrow> (int \<Rightarrow> string) \<Rightarrow> broadcast_task \<Rightarrow> bstate
     \<Rightarrow> (js_error + unit) \<times> bstate" where
  "broadcastEvent fx parse fmt task st =
     (case broadcast_steps fx parse fmt task st of
        (Inl e, st') \<Rightarrow> (Inr (), st'\<lparr> errors_logged := errors_logged st' @ [e] \<rparr>)
      | (Inr u, st') \<Rightarrow> (Inr (), st'))"

definition initial_bstate :: bstate where
  "initial_bstate = \<lparr> updates_made = 0, fetches_made = 0, delivered = [], errors_logged = [] \<rparr>"

section \<open>Sample inputs\<close>

text \<open>A parser for the handful of request bodies used as concrete inputs below; every
  other text is answered as unparsable.\<close>

definition sample_parse :: "string \<Rightarrow> json option" where
  \<open>sample_parse txt =
     (if txt = ''{"op":0,"t":"MESSAGE_CREATE","d":{"content":"hi"}}''
      then Some (JObj [(''op'', JNum 0), (''t'', JStr ''MESSAGE_CREATE''),
                       (''d'', JObj [(''content'', JStr ''hi'')])])
      else if txt = ''{"op":13,"d":{"plain_token":"tok","event_ts":"1725442341"}}''
      then Some (JObj [(''op'', JNum 13),
                       (''d'', JObj [(''plain_token'', JStr ''tok''), (''event_ts'', JStr ''1725442341'')])])
      else if txt = ''{"op":13,"d":{"plain_token":0,"event_ts":"1725442341"}}''
      then Some (JObj [(''op'', JNum 13),
                       (''d'', JObj [(''plain_token'', JNum 0), (''event_ts'', JStr ''1725442341'')])])
      else if txt = ''{"op":13}''
      then Some (JObj [(''op'', JNum 13)])
      else if txt = ''{"op":7}''
      then Some (JObj [(''op'', JNum 7)])
      else if txt = ''{}''
      then Some (JObj [])
      else None)\<close>

definition sample_config :: QQBotConfig where
  "sample_config = \<lparr> appId = ''102000001'', secret = ''abc'', verifySignature = True \<rparr>"

definition sample_proxy :: proxy where
  "sample_proxy =
     \<lparr> proxy_id = ''p1'', proxy_platform = ''qqbot'', proxy_active = True,
       access_token = Some ''tk'' \<rparr>"

text \<open>A library stand-in that rejects every signature.\<close>

definition rejecting_nacl :: nacl where
  "rejecting_nacl = demo_nacl\<lparr> detached_verify := (\<lambda>m sg pk. False) \<rparr>"

definition sample_env :: "nacl \<Rightarrow> QQBotConfig \<Rightarrow> store_reply \<Rightarrow> env" where
  "sample_env lib config reply =
     \<lparr> getProxyByRandomKey = (\<lambda>key. reply),
       createAdapter = (\<lambda>p. Some (QQBotAdapter sample_parse dec_int lib 1700000000000 config)),
       JSON_parse = sample_parse,
       number_format = dec_int \<rparr>"

text \<open>A dispatch with no signature headers, and one signed with 64 zero bytes.\<close>

definition unsigned_dispatch :: request where
  \<open>unsigned_dispatch =
     \<lparr> req_body = ''{"op":0,"t":"MESSAGE_CREATE","d":{"content":"hi"}}'', req_headers = [] \<rparr>\<close>

definition badly_signed_dispatch :: request where
  \<open>badly_signed_dispatch =
     \<lparr> req_body = ''{"op":0,"t":"MESSAGE_CREATE","d":{"content":"hi"}}'',
       req_headers = [(''X-Signature-Timestamp'', ''1725442341''),
                      (''X-Signature-Ed25519'', replicate 128 CHR ''0'')] \<rparr>\<close>

text \<open>The same dispatch with the signature that \<open>demo_nacl\<close> makes, under the secret of
  \<open>sample_config\<close>, for the timestamp followed by the body.\<close>

definition signed_dispatch :: request where
  \<open>signed_dispatch =
     \<lparr> req_body = ''{"op":0,"t":"MESSAGE_CREATE","d":{"content":"hi"}}'',
       req_headers = [(''X-Signature-Timestamp'', ''1725442341''),
                      (''X-Signature-Ed25519'',
                       ''313732353434323334317b226f70223a302c2274223a224d4553534147455f435245415445222c2264223a7b22636f6e74656e74223a226869227d7d61626361'')] \<rparr>\<close>

text \<open>A store that fails every update of the event counter, with a Durable Object that
  would accept every event.\<close>

definition failing_counter :: effects where
  "failing_counter =
     \<lparr> updateProxyEventCount = (\<lambda>n. Some (Error ''D1 unavailable'')),
       do_broadcast = (\<lambda>n. Inr 200) \<rparr>"

definition sample_task :: broadcast_task where
  "sample_task =
     \<lparr> task_adapter = QQBotAdapter sample_parse dec_int demo_nacl 1700000000000 sample_config,
       task_request = unsigned_dispatch, task_proxyId = ''p1'', task_randomKey = ''k1'' \<rparr>"

section \<open>Hexadecimal round trip\<close>

lemma lt16: "n < (16::nat) \<Longrightarrow> n \<in> {0,1,2,3,4,5,6,7,8,9,10,11,12,13,14,15}"
  by (simp only: insert_iff empty_iff) arith

lemma hexval_hexdigit: "n < 16 \<Longrightarrow> hexval (hexdigit n) = Some n"
proof -
  assume "n < 16"
  then have "n \<in> {0,1,2,3,4,5,6,7,8,9,10,11,12,13,14,15}" by (rule lt16)
  then show ?thesis by (auto simp: hexval_def hexdigit_def)
qed

lemma not_ws_hexdigit: "n < 16 \<Longrightarrow> \<not> is_ws (hexdigit n)"
proof -
  assume "n < 16"
  then have "n \<in> {0,1,2,3,4,5,6,7,8,9,10,11,12,13,14,15}" by (rule lt16)
  then show ?thesis by (auto simp: is_ws_def hexdigit_def)
qed

lemma hexdigit_not_special: "n < 16 \<Longrightarrow> hexdigit n \<noteq> CHR ''x'' \<and> hexdigit n \<noteq> CHR ''X'' \<and> hexdigit n \<noteq> CHR ''-'' \<and> hexdigit n \<noteq> CHR ''+''"
proof -
  assume "n < 16"
  then have "n \<in> {0,1,2,3,4,5,6,7,8,9,10,11,12,13,14,15}" by (rule lt16)
  then show ?thesis by (auto simp: hexdigit_def)
qed

lemma pad_toString16: "padStart2 (toString16 b) = [hexdigit (unat b div 16), hexdigit (unat b mod 16)]"
  by (auto simp: padStart2_def toString16_def hexdigit_def)

lemma unat_byte_div: "unat (b::byte) div 16 < 16"
  using unsigned_less[of b, where 'a=nat] by (simp add: less_mult_imp_div_less)

lemma parse_pair: "a < 16 \<Longrightarrow> b < 16 \<Longrightarrow> parseInt16 [hexdigit a, hexdigit b] = Some (int (16 * a + b))"
  using hexval_hexdigit[of a] hexval_hexdigit[of b] not_ws_hexdigit[of a] hexdigit_not_special[of a]  hexdigit_not_special[of b]
  by (auto simp: parseInt16_def strip_sign_def strip_0x_def digits_value_def)

lemma byte_roundtrip: "to_uint8 (parseInt16 (padStart2 (toString16 b))) = b"
  using parse_pair[OF unat_byte_div[of b], of "unat b mod 16"]
  by (simp add: pad_toString16 to_uint8_def)


lemma dropWhile_none: "(\<forall>c\<in>set s. \<not> P c) \<Longrightarrow> dropWhile P s = s"
  by (cases s) auto

lemma trim_id: "(\<forall>c\<in>set s. \<not> is_ws c) \<Longrightarrow> trim s = s"
  by (simp add: trim_def dropWhile_none)

lemma replace_0x_id: "(\<forall>c\<in>set s. c \<noteq> CHR ''x'') \<Longrightarrow> replace_0x_prefix s = s"
  by (auto simp: replace_0x_prefix_def split: list.splits)

lemma bytesToHex_pairs: "bytesToHex bs = concat (map (\<lambda>b. [hexdigit (unat b div 16), hexdigit (unat b mod 16)]) bs)"
  by (simp add: bytesToHex_def pad_toString16)

lemma bytesToHex_chars: "c \<in> set (bytesToHex bs) \<Longrightarrow> \<not> is_ws c \<and> c \<noteq> CHR ''x''"
  using not_ws_hexdigit hexdigit_not_special unat_byte_div
  by (auto simp: bytesToHex_pairs)

lemma length_bytesToHex: "length (bytesToHex bs) = 2 * length bs"
  by (induction bs) (simp_all add: bytesToHex_pairs)

lemma substrings2_bytesToHex: "substrings2 (bytesToHex bs) = map (\<lambda>b. padStart2 (toString16 b)) bs"
  by (induction bs) (simp_all add: bytesToHex_pairs pad_toString16)

lemma hexToBytes_bytesToHex: "hexToBytes (bytesToHex bs) = Inr bs"
proof -
  have "trim (replace_0x_prefix (bytesToHex bs)) = bytesToHex bs"
    using bytesToHex_chars[of _ bs] by (simp add: replace_0x_id trim_id)
  then show ?thesis
    by (simp add: hexToBytes_def length_bytesToHex substrings2_bytesToHex byte_roundtrip map_idI)
qed

section \<open>Key derivation\<close>

lemma stretch_long: "32 \<le> length s \<Longrightarrow> stretch_secret s = Some s"
  by (subst stretch_secret.simps) simp

lemma stretch_returns:
  "s \<noteq> [] \<Longrightarrow> \<exists>y. stretch_secret s = Some y \<and> length y = max 32 (length s) \<and> set y \<subseteq> set s"
proof (induction "32 - length s" arbitrary: s rule: less_induct)
  case less
  show ?case
  proof (cases "length s < 32")
    case False
    then show ?thesis by (simp add: stretch_long)
  next
    case True
    let ?t = "take 32 (s @ s)"
    from less.prems have pos: "0 < length s" by simp
    have len: "length ?t = min 32 (2 * length s)" by simp
    from True pos have lt: "32 - length ?t < 32 - length s"
      unfolding len by arith
    from less.prems have ne: "?t \<noteq> []" by simp
    from less.hyps[OF lt ne] obtain y where y: "stretch_secret ?t = Some y"
      "length y = max 32 (length ?t)" "set y \<subseteq> set ?t"
      by blast
    have sub: "set ?t \<subseteq> set s" using set_take_subset[of 32 "s @ s"] by simp
    from True have "stretch_secret s = stretch_secret ?t"
      by (subst stretch_secret.simps) simp
    with y sub True show ?thesis by (auto simp: max_def min_def)
  qed
qed



text \<open>The loop on two concrete secrets.\<close>

lemma stretch_33: "stretch_secret (replicate 33 CHR ''a'') = Some (replicate 33 CHR ''a'')"
  by (simp add: stretch_long)

lemma enc_33: "length (TextEncoder_encode (replicate 33 CHR ''a'')) = 33"
  by (simp add: TextEncoder_encode_def encode_char_def length_concat sum_list_replicate)

lemma stretch_abc: "stretch_secret ''abc'' = Some ''abcabcabcabcabcabcabcabcabcabcab''"
  by (simp add: stretch_secret.simps)

lemma demo_ok: "nacl_contract demo_nacl"
  by (auto simp: nacl_contract_def demo_nacl_def split: if_splits)


lemma encode_ascii_length:
  "(\<forall>c\<in>set s. (of_char c :: nat) < 128) \<Longrightarrow> length (TextEncoder_encode s) = length s"
  by (induction s) (simp_all add: TextEncoder_encode_def encode_char_def)

lemma encode_length_ge: "length s \<le> length (TextEncoder_encode s)"
  by (induction s) (simp_all add: TextEncoder_encode_def encode_char_def Let_def)

text \<open>For a secret of 1 to 32 code units below U+0080 the seed has 32 bytes, and a
  signature made by \<open>sign\<close> is accepted by \<open>verify\<close> under the same secret.\<close>

lemma roundtrip_short_ascii:
  assumes lib: "nacl_contract lib" and ne: "s \<noteq> []" and le: "length s \<le> 32"
    and ascii: "\<forall>c\<in>set s. (of_char c :: nat) < 128"
  shows "sign_then_verify lib s m = Some (Inr True)"
proof -
  from stretch_returns[OF ne] le obtain y where y: "stretch_secret s = Some y" "length y = 32" "set y \<subseteq> set s"
    by (auto simp: max_def)
  from y ascii have "length (TextEncoder_encode y) = 32"
    by (subst encode_ascii_length) auto
  with lib obtain pk sk where kp: "keyPair_fromSeed lib (TextEncoder_encode y) = Some (pk, sk)"
    unfolding nacl_contract_def by (metis not_None_eq surj_pair)
  from lib kp have ok: "length (detached lib (TextEncoder_encode m) sk) = 64"
    "detached_verify lib (TextEncoder_encode m) (detached lib (TextEncoder_encode m) sk) pk"
    unfolding nacl_contract_def by blast+
  show ?thesis
    using y(1) kp ok
    by (simp add: sign_then_verify_def Ed25519_sign_def Ed25519_verify_def hexToBytes_bytesToHex)
qed

text \<open>
  C3 (key derivation for every secret length). The source repeats a short secret up to
  32 code units but has no step that shortens a long one: a secret of more than 32 code
  units leaves the loop unchanged, and the seed handed to the key derivation has more
  than 32 bytes.
\<close>

theorem long_secret_not_truncated:
  "32 < length sec \<Longrightarrow>
     stretch_secret sec = Some sec \<and> 32 < length (TextEncoder_encode sec)"
  using encode_length_ge[of sec] by (simp add: stretch_long)

theorem long_secret_not_truncated_witness:
  "32 < length (replicate 33 CHR ''a'') \<and>
   stretch_secret (replicate 33 CHR ''a'') = Some (replicate 33 CHR ''a'') \<and>
   32 < length (TextEncoder_encode (replicate 33 CHR ''a''))"
  using long_secret_not_truncated[of "replicate 33 CHR ''a''"] by simp

text \<open>
  C2 (sign-then-verify round trip). With a library that accepts 32-byte seeds only, a
  secret of more than 32 code units makes \<open>sign\<close> throw, so signing and verifying
  under that secret does not yield a valid verdict.
\<close>

theorem roundtrip_fails_long_secret:
  assumes "nacl_contract lib" and "32 < length sec"
  shows "sign_then_verify lib sec message = Some (Inl (Error ''bad seed size''))"
proof -
  from assms(2) have s: "stretch_secret sec = Some sec" by (simp add: stretch_long)
  from assms(2) encode_length_ge[of sec] have "length (TextEncoder_encode sec) \<noteq> 32" by simp
  with assms(1) have "keyPair_fromSeed lib (TextEncoder_encode sec) = None"
    unfolding nacl_contract_def by blast
  with s show ?thesis by (simp add: sign_then_verify_def Ed25519_sign_def)
qed

theorem roundtrip_fails_long_secret_witness:
  "nacl_contract demo_nacl \<and> 32 < length (replicate 33 CHR ''a'') \<and>
   sign_then_verify demo_nacl (replicate 33 CHR ''a'') ''1725442341tok'' = Some (Inl (Error ''bad seed size''))"
  using roundtrip_fails_long_secret[OF demo_ok, of "replicate 33 CHR ''a''" "''1725442341tok''"] demo_ok
  by simp

section \<open>String conversion\<close>

lemma js_string_safe_number: "\<bar>n\<bar> < 2 ^ 53 \<Longrightarrow> js_string fmt (JNum n) = Some (dec_int n)"
  by (simp add: Number_toString_def)

lemma js_string_own_toString: "js_string fmt (JObj [(''toString'', v)]) = None"
  by simp

section \<open>The transform\<close>




text \<open>An \<open>op\<close> that is an object with an own \<open>toString\<close> has no text: \<open>transform\<close>
  throws.\<close>

lemma transform_throws_on_textless_op:
  "transform fmt now (JObj [(''op'', JObj [(''toString'', JNum 1)])]) = Inl TypeError"
  by (simp add: transform_def js_string_opt_def)

text \<open>A top-level field other than \<open>id\<close>, \<open>op\<close>, \<open>d\<close>, \<open>s\<close> and \<open>t\<close> does not reach
  the event.\<close>

lemma get_prop_snoc: "k' \<noteq> k \<Longrightarrow> get_prop (JObj (kvs @ [(k, v)])) k' = get_prop (JObj kvs) k'"
  by simp

lemma transform_drops_other_fields:
  assumes "k \<notin> {''id'', ''op'', ''d'', ''s'', ''t''}"
  shows "transform fmt now (JObj (kvs @ [(k, v)])) = transform fmt now (JObj kvs)"
proof -
  have eq: "get_prop (JObj (kvs @ [(k, v)])) k' = get_prop (JObj kvs) k'"
    if "k' \<in> {''id'', ''op'', ''d'', ''s'', ''t''}" for k'
    using that assms by (intro get_prop_snoc) blast
  show ?thesis
    unfolding transform_def by (simp add: eq del: get_prop.simps)
qed

section \<open>The handshake\<close>

text \<open>
  C5 (handshake errors). A handshake whose body has no \<open>d\<close> at all lacks both
  challenge fields, yet it is answered with status 500: the destructuring of
  \<open>payload.d\<close> throws before the check that answers 400, and the \<open>catch\<close> of
  \<open>handleWebhook\<close> turns the exception into an internal error.
\<close>

theorem handshake_without_d_answers_500:
  \<open>handleWebhook sample_parse fmt lib config \<lparr> req_body = ''{"op":13}'', req_headers = hs \<rparr> =
     Some \<lparr> status = 500, resp_body = Text ''Internal server error'' \<rparr>\<close>
  by (simp add: handleWebhook_def sample_parse_def handleVerification_def internal_error_def)





lemma sign_returns: "s \<noteq> [] \<Longrightarrow> \<exists>r. Ed25519_sign lib s m = Some r"
  using stretch_returns[of s] by (auto simp: Ed25519_sign_def)

lemma verify_returns: "s \<noteq> [] \<Longrightarrow> \<exists>r. Ed25519_verify lib s sg m = Some r"
  using stretch_returns[of s] by (auto simp: Ed25519_verify_def)





text \<open>The parts of the handshake that do not depend on the signature headers: the
  answer is that of \<open>handleVerification\<close>, which answers 400 when a field of \<open>d\<close> is
  missing or falsy and 500 when both are truthy and no secret is bound.\<close>

lemma handshake_skips_verification:
  assumes "parse (req_body req) = Some payload" and "get_prop payload ''op'' = Some (JNum 13)"
  shows "handleWebhook parse fmt lib config req =
           (case handleVerification fmt lib config payload of
              None \<Rightarrow> None
            | Some (Inl e) \<Rightarrow> Some internal_error
            | Some (Inr r) \<Rightarrow> Some r)"
  using assms by (cases payload) (simp_all add: handleWebhook_def)

lemma handshake_missing_field:
  assumes "get_prop payload ''d'' = Some d" and "d \<noteq> JNull"
    and "\<not> truthy (get_prop d ''plain_token'') \<or> \<not> truthy (get_prop d ''event_ts'')"
  shows "handleVerification fmt lib config payload =
           Some (Inr \<lparr> status = 400, resp_body = Text ''Bad request'' \<rparr>)"
  using assms by (cases d) (auto simp: handleVerification_def)

lemma handshake_no_credential:
  assumes "get_prop payload ''d'' = Some d" and "d \<noteq> JNull"
    and "truthy (get_prop d ''plain_token'')" and "truthy (get_prop d ''event_ts'')"
    and "secret config = []"
  shows "handleVerification fmt lib config payload =
           Some (Inr \<lparr> status = 500, resp_body = Text ''Server configuration error'' \<rparr>)"
  using assms by (cases d) (auto simp: handleVerification_def has_ed25519_def)


text \<open>A token or a timestamp that has no text is answered with status 500.\<close>

lemma handshake_textless_field:
  assumes "get_prop payload ''d'' = Some d"
    and "get_prop d ''plain_token'' = Some pt" and "truthy (Some pt)"
    and "get_prop d ''event_ts'' = Some ets" and "truthy (Some ets)"
    and "secret config \<noteq> []"
    and "js_string fmt pt = None \<or> js_string fmt ets = None"
  shows "handleVerification fmt lib config payload =
           Some (Inr \<lparr> status = 500, resp_body = Text ''Internal server error'' \<rparr>)"
proof -
  from assms(2) have "d \<noteq> JNull" by auto
  with assms show ?thesis
    by (cases d)
       (auto simp: handleVerification_def has_ed25519_def simp del: js_string.simps
          split: option.splits)
qed

section \<open>Signature verification of events\<close>

lemma handleVerification_returns: "\<exists>r. handleVerification fmt lib config payload = Some r"
proof (cases "has_ed25519 config")
  case False
  then show ?thesis
    by (auto simp: handleVerification_def Let_def simp del: js_string.simps
        split: option.splits json.splits)
next
  case True
  then have "\<exists>r. Ed25519_sign lib (secret config) m = Some r" for m
    by (simp add: has_ed25519_def sign_returns)
  then have "Ed25519_sign lib (secret config) m \<noteq> None" for m by auto
  then show ?thesis
    by (auto simp: handleVerification_def Let_def simp del: not_None_eq js_string.simps
        split: option.splits json.splits sum.splits)
qed

lemma QQBot_verifySignature_returns: "\<exists>v. QQBot_verifySignature lib config b ts sg = Some v"
  using verify_returns[of "secret config" lib sg "ts @ b"]
  by (auto simp: QQBot_verifySignature_def has_ed25519_def)

lemma handleWebhook_event:
  assumes "parse (req_body req) = Some payload" and "payload \<noteq> JNull"
    and "get_prop payload ''op'' \<noteq> Some (JNum 13)"
  shows "handleWebhook parse fmt lib config req =
           (if signature_rejected lib config req
            then Some \<lparr> status = 401, resp_body = Text ''Invalid signature'' \<rparr>
            else Some createAckResponse)"
proof (cases "signature_checked config req")
  case False
  with assms show ?thesis
    by (cases payload)
       (auto simp: handleWebhook_def signature_rejected_def signature_checked_def handleDispatch_def)
next
  case True
  obtain v where v: "QQBot_verifySignature lib config (req_body req)
       (header_or_empty req ''X-Signature-Timestamp'')
       (header_or_empty req ''X-Signature-Ed25519'') = Some v"
    using QQBot_verifySignature_returns by blast
  with True assms show ?thesis
    by (cases payload)
       (auto simp: handleWebhook_def signature_rejected_def signature_checked_def handleDispatch_def)
qed

lemma handleWebhook_returns: "\<exists>r. handleWebhook parse fmt lib config req = Some r"
proof (cases "parse (req_body req)")
  case None
  then show ?thesis by (simp add: handleWebhook_def)
next
  case (Some payload)
  show ?thesis
  proof (cases "payload = JNull")
    case True
    with Some show ?thesis by (simp add: handleWebhook_def)
  next
    case nn: False
    show ?thesis
    proof (cases "get_prop payload ''op'' = Some (JNum 13)")
      case True
      obtain r where "handleVerification fmt lib config payload = Some r"
        using handleVerification_returns by blast
      with Some True show ?thesis
        by (cases r) (simp_all add: handshake_skips_verification)
    next
      case False
      with Some nn show ?thesis by (simp add: handleWebhook_event)
    qed
  qed
qed

text \<open>
  C1 (verification before processing). A dispatch that carries no signature headers,
  sent to an adapter with verification enabled whose library would reject every
  signature: \<open>handleWebhook\<close> does not run the check and acknowledges the event with
  status 200.
\<close>

theorem unsigned_dispatch_not_verified:
  "handleWebhook sample_parse dec_int rejecting_nacl sample_config unsigned_dispatch =
     Some \<lparr> status = 200, resp_body = Json (JObj [(''op'', JNum 12)]) \<rparr>"
  by (simp add: handleWebhook_def unsigned_dispatch_def sample_parse_def sample_config_def
      header_or_empty_def handleDispatch_def createAckResponse_def)

text \<open>When both signature headers are present the check runs, and when it fails
  \<open>handleWebhook\<close> answers 401 and the route returns that answer with no broadcast
  task scheduled.\<close>

lemma failed_verification_rejects:
  assumes "signature_rejected lib config req"
    and "JSON_parse env (req_body req) = Some payload" and "payload \<noteq> JNull"
    and "get_prop payload ''op'' \<noteq> Some (JNum 13)"
    and "getProxyByRandomKey env key = ResolvesRecord proxy"
    and "proxy_active proxy" and "proxy_platform proxy = ''qqbot''"
    and "createAdapter env proxy = Some (QQBotAdapter (JSON_parse env) fmt lib now config)"
  shows "handleWebhook (JSON_parse env) fmt lib config req =
           Some \<lparr> status = 401, resp_body = Text ''Invalid signature'' \<rparr>
         \<and> webhook_post env ''qqbot'' key req =
           Some \<lparr> out_response = \<lparr> status = 401, resp_body = Text ''Invalid signature'' \<rparr>,
                  out_perf = PerfSuccess, out_scheduled = None \<rparr>"
proof -
  have h: "handleWebhook (JSON_parse env) fmt lib config req =
      Some \<lparr> status = 401, resp_body = Text ''Invalid signature'' \<rparr>"
    using assms(1-4) by (simp add: handleWebhook_event)
  then show ?thesis
    using assms(5-8)
    by (simp add: webhook_post_def SUPPORTED_PLATFORMS_def QQBotAdapter_def Request_clone_def)
qed

lemma bad_signature_rejected: "signature_rejected demo_nacl sample_config badly_signed_dispatch"
  by (simp add: signature_rejected_def signature_checked_def badly_signed_dispatch_def
      header_or_empty_def sample_config_def QQBot_verifySignature_def has_ed25519_def)
     code_simp

lemma failed_verification_rejects_witness:
  "signature_rejected demo_nacl sample_config badly_signed_dispatch \<and>
   handleWebhook sample_parse dec_int demo_nacl sample_config badly_signed_dispatch =
     Some \<lparr> status = 401, resp_body = Text ''Invalid signature'' \<rparr> \<and>
   webhook_post (sample_env demo_nacl sample_config (ResolvesRecord sample_proxy))
       ''qqbot'' ''k1'' badly_signed_dispatch =
     Some \<lparr> out_response = \<lparr> status = 401, resp_body = Text ''Invalid signature'' \<rparr>,
            out_perf = PerfSuccess, out_scheduled = None \<rparr>"
  using failed_verification_rejects[OF bad_signature_rejected,
      of "sample_env demo_nacl sample_config (ResolvesRecord sample_proxy)"
         "JObj [(''op'', JNum 0), (''t'', JStr ''MESSAGE_CREATE''), (''d'', JObj [(''content'', JStr ''hi'')])]"
         "''k1''" sample_proxy dec_int 1700000000000]
    bad_signature_rejected
  by (simp add: sample_env_def sample_parse_def badly_signed_dispatch_def sample_proxy_def)

section \<open>The ingestion route\<close>

text \<open>The failures of the stages before the adapter runs, and of an adapter that lets
  an exception escape.\<close>

lemma post_invalid_platform:
  "platform \<notin> set SUPPORTED_PLATFORMS \<Longrightarrow>
     webhook_post env platform key req = Some (reject ''Invalid platform'' 400 ''InvalidPlatform'')"
  by (simp add: webhook_post_def)

lemma post_lookup_timeout:
  "platform \<in> set SUPPORTED_PLATFORMS \<Longrightarrow> getProxyByRandomKey env key = NeverResolves \<Longrightarrow>
     webhook_post env platform key req = Some (reject ''Database timeout'' 500 ''DBTimeout'')"
  by (simp add: webhook_post_def)

lemma post_record_absent:
  "platform \<in> set SUPPORTED_PLATFORMS \<Longrightarrow> getProxyByRandomKey env key = ResolvesUndefined \<Longrightarrow>
     webhook_post env platform key req = Some (reject ''Proxy not found'' 404 ''ProxyNotFound'')"
  by (simp add: webhook_post_def)

lemma post_record_inactive:
  "platform \<in> set SUPPORTED_PLATFORMS \<Longrightarrow> getProxyByRandomKey env key = ResolvesRecord p \<Longrightarrow>
   \<not> proxy_active p \<Longrightarrow>
     webhook_post env platform key req = Some (reject ''Proxy is inactive'' 403 ''ProxyInactive'')"
  by (simp add: webhook_post_def)

lemma post_platform_mismatch:
  "platform \<in> set SUPPORTED_PLATFORMS \<Longrightarrow> getProxyByRandomKey env key = ResolvesRecord p \<Longrightarrow>
   proxy_active p \<Longrightarrow> proxy_platform p \<noteq> platform \<Longrightarrow>
     webhook_post env platform key req = Some (reject ''Platform mismatch'' 400 ''PlatformMismatch'')"
  by (simp add: webhook_post_def)

lemma post_adapter_creation_failed:
  "platform \<in> set SUPPORTED_PLATFORMS \<Longrightarrow> getProxyByRandomKey env key = ResolvesRecord p \<Longrightarrow>
   proxy_active p \<Longrightarrow> proxy_platform p = platform \<Longrightarrow> createAdapter env p = None \<Longrightarrow>
     webhook_post env platform key req =
       Some (reject ''Failed to create adapter'' 500 ''AdapterCreationFailed'')"
  by (simp add: webhook_post_def)

lemma post_syntax_error_escaping:
  "platform \<in> set SUPPORTED_PLATFORMS \<Longrightarrow> getProxyByRandomKey env key = ResolvesRecord p \<Longrightarrow>
   proxy_active p \<Longrightarrow> proxy_platform p = platform \<Longrightarrow> createAdapter env p = Some a \<Longrightarrow>
   adapter_handleWebhook a req = Some (Inl SyntaxError) \<Longrightarrow>
     webhook_post env platform key req = Some (catch_error SyntaxError) \<and>
     out_response (catch_error SyntaxError) = text_response ''Invalid JSON payload'' 400"
  by (simp add: webhook_post_def catch_error_def Request_clone_def)

lemma post_store_null_reads_as_timeout:
  "platform \<in> set SUPPORTED_PLATFORMS \<Longrightarrow> getProxyByRandomKey env key = ResolvesNull \<Longrightarrow>
     webhook_post env platform key req = Some (reject ''Database timeout'' 500 ''DBTimeout'')"
  by (simp add: webhook_post_def)

text \<open>
  C6 (status of every stage failure). A body that is not JSON, sent to an active
  \<open>qqbot\<close> record: the adapter catches the \<open>SyntaxError\<close> of \<open>JSON.parse\<close> itself
  and answers 500, so the route's own mapping of a \<open>SyntaxError\<close> to 400 is never
  reached, and the call is recorded as a success.
\<close>

theorem malformed_json_on_qqbot_answers_500:
  "webhook_post (sample_env lib config (ResolvesRecord sample_proxy)) ''qqbot'' key
     \<lparr> req_body = ''{not json'', req_headers = hs \<rparr> =
   Some \<lparr> out_response = \<lparr> status = 500, resp_body = Text ''Internal server error'' \<rparr>,
          out_perf = PerfSuccess, out_scheduled = None \<rparr>"
  by (simp add: webhook_post_def sample_env_def SUPPORTED_PLATFORMS_def sample_proxy_def
      QQBotAdapter_def handleWebhook_def sample_parse_def internal_error_def Request_clone_def)

section \<open>Scheduling of the broadcast\<close>

text \<open>On the route of the platform \<open>qqbot\<close> no call ever gets a broadcast task:
  the branch for the discriminator 0 clones a request whose body it has just read.\<close>

lemma qqbot_branch_never_schedules:
  "qqbot_broadcast env task done (r, False) = Some out \<Longrightarrow>
   (\<forall>out'. done None = Some out' \<longrightarrow> out_scheduled out' = None) \<Longrightarrow>
     out_scheduled out = None"
  by (auto simp: qqbot_broadcast_def Request_text_def Request_clone_def catch_error_def
      split: option.splits json.splits if_splits)

lemma qqbot_route_never_schedules:
  assumes "webhook_post env ''qqbot'' key req = Some out"
  shows "out_scheduled out = None"
proof -
  have other: "out_scheduled (reject m c k) = None" "out_scheduled (catch_error e) = None" for m c k e
    by (simp_all add: reject_def catch_error_def)
  show ?thesis
    using assms other
    by (auto simp: webhook_post_def Request_clone_def Let_def
        split: if_splits sum.splits lookup.splits option.splits
        dest!: qqbot_branch_never_schedules)
qed

lemma signed_dispatch_passes:
  "QQBot_verifySignature demo_nacl sample_config (req_body signed_dispatch)
     (header_or_empty signed_dispatch ''X-Signature-Timestamp'')
     (header_or_empty signed_dispatch ''X-Signature-Ed25519'') = Some True"
  by (simp add: signed_dispatch_def header_or_empty_def sample_config_def
      QQBot_verifySignature_def has_ed25519_def)
     code_simp

lemma signed_dispatch_acknowledged:
  "handleWebhook sample_parse dec_int demo_nacl sample_config signed_dispatch =
     Some \<lparr> status = 200, resp_body = Json (JObj [(''op'', JNum 12)]) \<rparr>"
proof -
  have "\<not> signature_rejected demo_nacl sample_config signed_dispatch"
    using signed_dispatch_passes by (simp add: signature_rejected_def)
  moreover have "sample_parse (req_body signed_dispatch) =
      Some (JObj [(''op'', JNum 0), (''t'', JStr ''MESSAGE_CREATE''), (''d'', JObj [(''content'', JStr ''hi'')])])"
    by (simp add: signed_dispatch_def sample_parse_def)
  ultimately show ?thesis
    using handleWebhook_event[of sample_parse signed_dispatch
        "JObj [(''op'', JNum 0), (''t'', JStr ''MESSAGE_CREATE''), (''d'', JObj [(''content'', JStr ''hi'')])]"
        dec_int demo_nacl sample_config]
    by (simp add: createAckResponse_def)
qed

text \<open>
  C7 (broadcast exactly for dispatches). A correctly signed dispatch (discriminator 0)
  sent to an active \<open>qqbot\<close> record: the adapter acknowledges it with status 200, but
  the route then clones the copy of the request whose body it has just read, which
  throws, so the call is answered 400 and no broadcast task is scheduled.
\<close>

theorem accepted_dispatch_not_broadcast:
  "handleWebhook sample_parse dec_int demo_nacl sample_config signed_dispatch =
     Some \<lparr> status = 200, resp_body = Json (JObj [(''op'', JNum 12)]) \<rparr> \<and>
   webhook_post (sample_env demo_nacl sample_config (ResolvesRecord sample_proxy))
       ''qqbot'' ''k1'' signed_dispatch =
     Some \<lparr> out_response = \<lparr> status = 400, resp_body = Text ''Invalid request format'' \<rparr>,
            out_perf = PerfClassified TypeError, out_scheduled = None \<rparr>"
proof -
  have body: "sample_parse (req_body signed_dispatch) =
      Some (JObj [(''op'', JNum 0), (''t'', JStr ''MESSAGE_CREATE''), (''d'', JObj [(''content'', JStr ''hi'')])])"
    by (simp add: signed_dispatch_def sample_parse_def)
  show ?thesis
    using signed_dispatch_acknowledged body
    by (simp add: webhook_post_def sample_env_def SUPPORTED_PLATFORMS_def sample_proxy_def
        QQBotAdapter_def Request_clone_def Request_text_def qqbot_broadcast_def
        js_string_opt_def or_else_def Number_toString_def catch_error_def text_response_def)
qed

text \<open>On another platform an answer with status 200 does get its task, carrying the
  request and the record's id.\<close>

lemma other_platform_schedules:
  assumes "platform \<in> set SUPPORTED_PLATFORMS" and "platform \<noteq> ''qqbot''"
    and "getProxyByRandomKey env key = ResolvesRecord p"
    and "proxy_active p" and "proxy_platform p = platform"
    and "createAdapter env p = Some a"
    and "adapter_handleWebhook a req = Some (Inr r)" and "status r = 200"
  shows "webhook_post env platform key req =
           Some \<lparr> out_response = r, out_perf = PerfSuccess,
                  out_scheduled = Some \<lparr> task_adapter = a, task_request = req,
                                          task_proxyId = proxy_id p, task_randomKey = key \<rparr> \<rparr>"
  using assms by (simp add: webhook_post_def Request_clone_def)

section \<open>The live-connection route\<close>



section \<open>The broadcast task\<close>

lemma update_all_fail:
  assumes "\<forall>i<3. updateProxyEventCount fx (updates_made st + i) \<noteq> None"
  shows "\<exists>e. withRetry (update_operation fx) 2 (\<lambda>error attempt. True) st =
           (Inl e, st\<lparr> updates_made := updates_made st + 3 \<rparr>)"
proof -
  from assms obtain e0 e1 e2 where
    "updateProxyEventCount fx (updates_made st) = Some e0"
    "updateProxyEventCount fx (Suc (updates_made st)) = Some e1"
    "updateProxyEventCount fx (Suc (Suc (updates_made st))) = Some e2"
    using assms[rule_format, of 0] assms[rule_format, of 1] assms[rule_format, of 2]
    by (auto simp: numeral_2_eq_2)
  then show ?thesis
    by (simp add: withRetry_def numeral_2_eq_2 update_operation_def numeral_3_eq_3)
qed

text \<open>A store whose counter update always fails while the Durable Object is ready to
  accept: three updates are tried, the error is written down, and no delivery is
  attempted.\<close>

theorem failing_counter_blocks_delivery:
  "broadcastEvent failing_counter sample_parse dec_int sample_task initial_bstate =
     (Inr (), \<lparr> updates_made = 3, fetches_made = 0, delivered = [],
                errors_logged = [Error ''D1 unavailable''] \<rparr>)"
  by (simp add: broadcastEvent_def broadcast_steps_def sample_task_def unsigned_dispatch_def
      sample_parse_def QQBotAdapter_def transform_def Let_def withRetry_def numeral_2_eq_2
      update_operation_def failing_counter_def initial_bstate_def js_string_opt_def)

text \<open>
  C8 (counter failure and delivery). The promise of \<open>broadcastEvent\<close> is always
  fulfilled, whatever fails inside; and when every attempt to increment the event
  counter fails, the failure is written down and the task ends there, with no delivery
  to the broadcast target attempted.
\<close>

theorem counter_failure_ends_task:
  "fst (broadcastEvent fx parse fmt task st) = Inr () \<and>
   ((\<forall>i<3. updateProxyEventCount fx (updates_made st + i) \<noteq> None) \<and>
    parse (req_body (task_request task)) = Some payload \<and>
    adapter_transform (task_adapter task) payload = Inr ev \<longrightarrow>
      (\<exists>e. snd (broadcastEvent fx parse fmt task st) =
              st\<lparr> updates_made := updates_made st + 3,
                  errors_logged := errors_logged st @ [e] \<rparr>))"
proof
  show "fst (broadcastEvent fx parse fmt task st) = Inr ()"
    by (simp add: broadcastEvent_def split: prod.splits sum.splits)
next
  show "(\<forall>i<3. updateProxyEventCount fx (updates_made st + i) \<noteq> None) \<and>
    parse (req_body (task_request task)) = Some payload \<and>
    adapter_transform (task_adapter task) payload = Inr ev \<longrightarrow>
      (\<exists>e. snd (broadcastEvent fx parse fmt task st) =
              st\<lparr> updates_made := updates_made st + 3,
                  errors_logged := errors_logged st @ [e] \<rparr>)"
  proof (intro impI, elim conjE)
    assume a: "\<forall>i<3. updateProxyEventCount fx (updates_made st + i) \<noteq> None"
      and p: "parse (req_body (task_request task)) = Some payload"
      and t: "adapter_transform (task_adapter task) payload = Inr ev"
    from update_all_fail[OF a] obtain e where
      "withRetry (update_operation fx) 2 (\<lambda>error attempt. True) st =
           (Inl e, st\<lparr> updates_made := updates_made st + 3 \<rparr>)" by blast
    with p t show "\<exists>e. snd (broadcastEvent fx parse fmt task st) =
              st\<lparr> updates_made := updates_made st + 3,
                  errors_logged := errors_logged st @ [e] \<rparr>"
      by (auto simp: broadcastEvent_def broadcast_steps_def)
  qed
qed

theorem counter_failure_ends_task_witness:
  "fst (broadcastEvent failing_counter sample_parse dec_int sample_task initial_bstate) = Inr () \<and>
   fetches_made (snd (broadcastEvent failing_counter sample_parse dec_int sample_task initial_bstate)) = 0 \<and>
   updates_made (snd (broadcastEvent failing_counter sample_parse dec_int sample_task initial_bstate)) = 3"
  using counter_failure_ends_task[of failing_counter sample_parse dec_int sample_task initial_bstate
      "JObj [(''op'', JNum 0), (''t'', JStr ''MESSAGE_CREATE''), (''d'', JObj [(''content'', JStr ''hi'')])]"
      "case transform dec_int 1700000000000 (JObj [(''op'', JNum 0), (''t'', JStr ''MESSAGE_CREATE''), (''d'', JObj [(''content'', JStr ''hi'')])]) of Inr ev \<Rightarrow> ev"]
  by (auto simp: failing_counter_def sample_task_def unsigned_dispatch_def sample_parse_def
      QQBotAdapter_def transform_def Let_def initial_bstate_def js_string_opt_def)

text \<open>When the first update and the first fetch succeed, the event is delivered once.\<close>

lemma broadcast_delivers:
  assumes "parse (req_body (task_request task)) = Some payload"
    and "adapter_transform (task_adapter task) payload = Inr ev"
    and "updateProxyEventCount fx (updates_made st) = None"
    and "do_broadcast fx (fetches_made st) = Inr 200"
  shows "\<exists>logged. broadcastEvent fx parse fmt task st =
           (Inr (), st\<lparr> updates_made := Suc (updates_made st),
                        fetches_made := Suc (fetches_made st),
                        delivered := delivered st @ [ev],
                        errors_logged := errors_logged st @ logged \<rparr>)"
proof (cases "js_string fmt (ev_type ev)")
  case None
  with assms show ?thesis
    by (intro exI[of _ "[TypeError]"])
       (simp add: broadcastEvent_def broadcast_steps_def withRetry_def numeral_2_eq_2
          update_operation_def deliver_operation_def)
next
  case (Some a)
  with assms show ?thesis
    by (intro exI[of _ "[]"])
       (simp add: broadcastEvent_def broadcast_steps_def withRetry_def numeral_2_eq_2
          update_operation_def deliver_operation_def)
qed

end
